theory Spec2Isabelle
  imports Complex_Main "HOL-Library.Word" "HOL-Library.Sublist"
begin

section \<open>PReMiuM: the entry point \<open>profRegr\<close> of \<open>PReMiuM.cpp\<close>\<close>

text \<open>
  \<open>profRegr\<close> configures an \<open>mcmcSampler\<close>, registers the proposals the options and
  the imported data call for, and runs the chain. The sampler class and the option and
  data classes live in headers outside \<open>PReMiuM.cpp\<close>; what \<open>profRegr\<close> itself decides is
  the sequence of calls it makes on the sampler and the arguments it passes. That sequence
  is what is embedded here.
\<close>

subsection \<open>Data\<close>

type_synonym uint = "32 word"

text \<open>
  A C++ \<open>double\<close>. The only operation \<open>profRegr\<close> applies to one is the comparison
  \<open>options.fixedAlpha()<0\<close>, which is false for a NaN and for both zeros.
\<close>

datatype double = Finite real | PlusInfinity | MinusInfinity | NaN

fun lessThanZero :: "double \<Rightarrow> bool" where
  "lessThanZero (Finite r) = (r < 0)"
| "lessThanZero MinusInfinity = True"
| "lessThanZero PlusInfinity = False"
| "lessThanZero NaN = False"

text \<open>
  The accessors of \<open>pReMiuMOptions\<close> that \<open>profRegr\<close> reads. The counters are
  \<open>unsigned int\<close>, the type \<open>profRegr\<close> casts to at line 143; the string-valued options are
  compared with \<open>std::string::compare\<close>, which is 0 exactly for equal strings.
\<close>

record pReMiuMOptions =
  inFileName :: string
  outFileStem :: string
  predictFileName :: string
  nSweeps :: uint
  nBurn :: uint
  nFilter :: uint
  nProgress :: uint
  reportBurnIn :: bool
  seed :: int
  outcomeType :: string
  covariateType :: string
  varSelectType :: string
  samplerType :: string
  fixedAlpha :: double
  includeResponse :: bool
  responseExtraVar :: bool

text \<open>
  The accessors of \<open>pReMiuMData\<close> that \<open>profRegr\<close> reads, on the data set as it is after
  \<open>importData\<close>. Everything else the class holds is the record's extension.
\<close>

record pReMiuMData =
  nCovariates :: uint
  nFixedEffects :: uint
  nCategoriesY :: uint

text \<open>The functions whose addresses \<open>profRegr\<close> hands to the sampler.\<close>

datatype modelFn =
  ImportPReMiuMData | InitialisePReMiuM | PReMiuMLogPost
  | UpdateMissingPReMiuMData | WritePReMiuMOutput

datatype updateFn =
  GibbsForVActive | UpdateForPhiActive | GibbsForMuActive | GibbsForTauActive
  | GibbsForGammaActive | MetropolisHastingsForThetaActive | MetropolisHastingsForLabels
  | GibbsForU | MetropolisHastingsForAlpha | GibbsForVInActive | GibbsForPhiInActive
  | GibbsForMuInActive | GibbsForTauInActive | GibbsForGammaInActive
  | GibbsForThetaInActive | MetropolisHastingsForBeta | MetropolisHastingsForLambda
  | GibbsForTauEpsilon | MetropolisHastingsForRhoOmega | GibbsForSigmaSqY | GibbsForZ

text \<open>The five arguments of one \<open>addProposal\<close> call, in the order they are passed.\<close>

record proposal =
  name :: string
  weight :: double
  repeatCount :: uint
  firstActiveSweep :: uint
  updateCallable :: updateFn

definition addProposalArgs ::
  "string \<Rightarrow> double \<Rightarrow> uint \<Rightarrow> uint \<Rightarrow> updateFn \<Rightarrow> proposal" where
  "addProposalArgs n w k s f =
     \<lparr>name = n, weight = w, repeatCount = k, firstActiveSweep = s, updateCallable = f\<rparr>"

subsection \<open>The proposals \<open>profRegr\<close> adds (lines 109 to 246)\<close>

text \<open>\<open>firstSweep=1+(unsigned int)(options.nBurn()/10)\<close>, lines 143, 202 and 234.\<close>

definition firstSweep :: "'a pReMiuMOptions_scheme \<Rightarrow> uint" where
  "firstSweep options = 1 + nBurn options div 10"

text \<open>Lines 112 to 137: the updates of the active covariate parameters.\<close>

definition activeCovariateProposals :: "'a pReMiuMOptions_scheme \<Rightarrow> proposal list" where
  "activeCovariateProposals options =
     (if covariateType options = ''Discrete'' then
        [addProposalArgs ''updateForPhiActive'' (Finite 1) 1 1 UpdateForPhiActive]
      else if covariateType options = ''Normal'' then
        [addProposalArgs ''gibbsForMuActive'' (Finite 1) 1 1 GibbsForMuActive,
         addProposalArgs ''gibbsForTauActive'' (Finite 1) 1 1 GibbsForTauActive]
      else if covariateType options = ''Mixed'' then
        [addProposalArgs ''updateForPhiActive'' (Finite 1) 1 1 UpdateForPhiActive,
         addProposalArgs ''gibbsForMuActive'' (Finite 1) 1 1 GibbsForMuActive,
         addProposalArgs ''gibbsForTauActive'' (Finite 1) 1 1 GibbsForTauActive]
      else [])"

text \<open>Lines 140 to 149: the variable selection move of the active clusters.\<close>

definition activeGammaProposals :: "'a pReMiuMOptions_scheme \<Rightarrow> proposal list" where
  "activeGammaProposals options =
     (if varSelectType options \<noteq> ''None'' then
        (if varSelectType options \<noteq> ''Continuous'' then
           [addProposalArgs ''gibbsForGammaActive'' (Finite 1) 1 (firstSweep options)
              GibbsForGammaActive]
         else [])
      else [])"

text \<open>Lines 151 to 154.\<close>

definition activeThetaProposals :: "'a pReMiuMOptions_scheme \<Rightarrow> proposal list" where
  "activeThetaProposals options =
     (if includeResponse options then
        [addProposalArgs ''metropolisHastingsForThetaActive'' (Finite 1) 1 1
           MetropolisHastingsForThetaActive]
      else [])"

text \<open>Lines 159 to 162.\<close>

definition sliceProposals :: "'a pReMiuMOptions_scheme \<Rightarrow> proposal list" where
  "sliceProposals options =
     (if samplerType options \<noteq> ''Truncated'' then
        [addProposalArgs ''gibbsForU'' (Finite 1) 1 1 GibbsForU]
      else [])"

text \<open>Lines 164 to 167.\<close>

definition alphaProposals :: "'a pReMiuMOptions_scheme \<Rightarrow> proposal list" where
  "alphaProposals options =
     (if lessThanZero (fixedAlpha options) then
        [addProposalArgs ''metropolisHastingsForAlpha'' (Finite 1) 1 1
           MetropolisHastingsForAlpha]
      else [])"

text \<open>Lines 172 to 197: the updates of the inactive covariate parameters.\<close>

definition inactiveCovariateProposals :: "'a pReMiuMOptions_scheme \<Rightarrow> proposal list" where
  "inactiveCovariateProposals options =
     (if covariateType options = ''Discrete'' then
        [addProposalArgs ''gibbsForPhiInActive'' (Finite 1) 1 1 GibbsForPhiInActive]
      else if covariateType options = ''Normal'' then
        [addProposalArgs ''gibbsForMuInActive'' (Finite 1) 1 1 GibbsForMuInActive,
         addProposalArgs ''gibbsForTauInActive'' (Finite 1) 1 1 GibbsForTauInActive]
      else if covariateType options = ''Mixed'' then
        [addProposalArgs ''gibbsForPhiInActive'' (Finite 1) 1 1 GibbsForPhiInActive,
         addProposalArgs ''gibbsForMuInActive'' (Finite 1) 1 1 GibbsForMuInActive,
         addProposalArgs ''gibbsForTauInActive'' (Finite 1) 1 1 GibbsForTauInActive]
      else [])"

text \<open>Lines 199 to 208: the variable selection move of the inactive clusters.\<close>

definition inactiveGammaProposals :: "'a pReMiuMOptions_scheme \<Rightarrow> proposal list" where
  "inactiveGammaProposals options =
     (if varSelectType options \<noteq> ''None'' then
        (if varSelectType options \<noteq> ''Continuous'' then
           [addProposalArgs ''gibbsForGammaInActive'' (Finite 1) 1 (firstSweep options)
              GibbsForGammaInActive]
         else [])
      else [])"

text \<open>Lines 210 to 213.\<close>

definition inactiveThetaProposals :: "'a pReMiuMOptions_scheme \<Rightarrow> proposal list" where
  "inactiveThetaProposals options =
     (if includeResponse options then
        [addProposalArgs ''gibbsForThetaInActive'' (Finite 1) 1 1 GibbsForThetaInActive]
      else [])"

text \<open>Lines 215 to 228: fixed effects and extra variation of the response.\<close>

definition responseProposals ::
  "'a pReMiuMOptions_scheme \<Rightarrow> 'b pReMiuMData_scheme \<Rightarrow> proposal list" where
  "responseProposals options dataset =
     (if includeResponse options then
        (if nFixedEffects dataset > 0 then
           [addProposalArgs ''metropolisHastingsForBeta'' (Finite 1) 1 1
              MetropolisHastingsForBeta]
         else []) @
        (if responseExtraVar options then
           [addProposalArgs ''metropolisHastingsForLambda'' (Finite 1) 1 1
              MetropolisHastingsForLambda,
            addProposalArgs ''gibbsForTauEpsilon'' (Finite 1) 1 1 GibbsForTauEpsilon]
         else [])
      else [])"

text \<open>Lines 230 to 237.\<close>

definition rhoOmegaProposals :: "'a pReMiuMOptions_scheme \<Rightarrow> proposal list" where
  "rhoOmegaProposals options =
     (if varSelectType options \<noteq> ''None'' then
        [addProposalArgs ''metropolisHastingsForRhoOmega'' (Finite 1) 1 (firstSweep options)
           MetropolisHastingsForRhoOmega]
      else [])"

text \<open>Lines 239 to 242.\<close>

definition sigmaSqYProposals :: "'a pReMiuMOptions_scheme \<Rightarrow> proposal list" where
  "sigmaSqYProposals options =
     (if outcomeType options = ''Normal'' then
        [addProposalArgs ''gibbsForSigmaSqY'' (Finite 1) 1 1 GibbsForSigmaSqY]
      else [])"

text \<open>
  The \<open>addProposal\<close> calls of \<open>profRegr\<close>, in program order. The calls at lines 110, 157,
  170 and 246 are unconditional.
\<close>

definition profRegr_proposals ::
  "'a pReMiuMOptions_scheme \<Rightarrow> 'b pReMiuMData_scheme \<Rightarrow> proposal list" where
  "profRegr_proposals options dataset =
     [addProposalArgs ''gibbsForVActive'' (Finite 1) 1 1 GibbsForVActive]
     @ activeCovariateProposals options
     @ activeGammaProposals options
     @ activeThetaProposals options
     @ [addProposalArgs ''metropolisHastingsForLabels'' (Finite 1) 1 1
          MetropolisHastingsForLabels]
     @ sliceProposals options
     @ alphaProposals options
     @ [addProposalArgs ''gibbsForVInActive'' (Finite 1) 1 1 GibbsForVInActive]
     @ inactiveCovariateProposals options
     @ inactiveGammaProposals options
     @ inactiveThetaProposals options
     @ responseProposals options dataset
     @ rhoOmegaProposals options
     @ sigmaSqYProposals options
     @ [addProposalArgs ''gibbsForZ'' (Finite 1) 1 1 GibbsForZ]"

text \<open>
  Every name that occurs in an \<open>addProposal\<close> call of \<open>profRegr\<close>, in program order.
  The Discrete and the Mixed branch use the same names for the same updates.
\<close>

definition proposalNames :: "string list" where
  "proposalNames =
     [''gibbsForVActive'', ''updateForPhiActive'', ''gibbsForMuActive'', ''gibbsForTauActive'',
      ''gibbsForGammaActive'', ''metropolisHastingsForThetaActive'',
      ''metropolisHastingsForLabels'', ''gibbsForU'', ''metropolisHastingsForAlpha'',
      ''gibbsForVInActive'', ''gibbsForPhiInActive'', ''gibbsForMuInActive'',
      ''gibbsForTauInActive'', ''gibbsForGammaInActive'', ''gibbsForThetaInActive'',
      ''metropolisHastingsForBeta'', ''metropolisHastingsForLambda'', ''gibbsForTauEpsilon'',
      ''metropolisHastingsForRhoOmega'', ''gibbsForSigmaSqY'', ''gibbsForZ'']"

subsection \<open>The calls \<open>profRegr\<close> makes on the sampler (lines 74 to 274)\<close>

text \<open>
  One constructor for each \<open>mcmcSampler\<close> method \<open>profRegr\<close> calls, with the arguments of
  the call. \<open>DatasetOutcomeType\<close> and \<open>DatasetCovariateType\<close> are the two setters reached
  through \<open>model().dataset()\<close> at lines 97 and 98; \<open>ProposalParams\<close> carries the four
  arguments of the \<open>pReMiuMPropParams\<close> constructor of line 105; the text handed to
  \<open>appendToLogFile\<close> is not kept.
\<close>

datatype samplerCall =
  Options pReMiuMOptions
  | Model modelFn modelFn modelFn bool
  | UpdateMissingDataFn modelFn
  | UserOutputFn modelFn
  | SeedGenerator int
  | NSweeps uint
  | NBurn uint
  | NFilter uint
  | NProgress uint
  | ReportBurnIn bool
  | DatasetOutcomeType string
  | DatasetCovariateType string
  | ImportData string string
  | ProposalParams uint uint uint uint
  | AddProposal proposal
  | InitialiseOutputFiles string
  | WriteLogFile
  | InitialiseChain
  | Run
  | AppendToLogFile
  | CloseOutputFiles

text \<open>
  The calls in program order, when none of them raises. The data set is the one
  \<open>importData\<close> leaves in the sampler, read back at line 100.
\<close>

definition profRegr_calls ::
  "'a pReMiuMOptions_scheme \<Rightarrow> 'b pReMiuMData_scheme \<Rightarrow> samplerCall list" where
  "profRegr_calls options dataset =
     [Options (pReMiuMOptions.truncate options),
      Model ImportPReMiuMData InitialisePReMiuM PReMiuMLogPost True,
      UpdateMissingDataFn UpdateMissingPReMiuMData,
      UserOutputFn WritePReMiuMOutput,
      SeedGenerator (seed options),
      NSweeps (nSweeps options),
      NBurn (nBurn options),
      NFilter (nFilter options),
      NProgress (nProgress options),
      ReportBurnIn (reportBurnIn options),
      DatasetOutcomeType (outcomeType options),
      DatasetCovariateType (covariateType options),
      ImportData (inFileName options) (predictFileName options),
      ProposalParams (nSweeps options) (nCovariates dataset) (nFixedEffects dataset)
        (nCategoriesY dataset)]
     @ map AddProposal (profRegr_proposals options dataset)
     @ [InitialiseOutputFiles (outFileStem options),
        WriteLogFile,
        InitialiseChain,
        Run,
        AppendToLogFile,
        CloseOutputFiles]"

text \<open>
  A call either returns or raises. \<open>profRegr\<close> has no \<open>try\<close> block, so an exception
  leaves it at the call that raised: no later statement runs and the exception reaches
  the caller. \<open>raises\<close> tells which calls raise; the result is the list of calls made and
  either the exception or the value 0 that \<open>profRegr\<close> returns at line 277. What is not
  a sampler method (\<open>processCommandLine\<close>, \<open>time\<close>, the accessors of the chain at lines
  258 to 261, \<open>storeLogFileData\<close>) is taken to return.
\<close>

datatype exception = Raised samplerCall

fun perform ::
  "(samplerCall \<Rightarrow> bool) \<Rightarrow> samplerCall list \<Rightarrow> samplerCall list \<times> (exception + int)" where
  "perform raises [] = ([], Inr 0)"
| "perform raises (c # cs) =
     (if raises c then ([c], Inl (Raised c))
      else (case perform raises cs of (made, result) \<Rightarrow> (c # made, result)))"

definition profRegr ::
  "(samplerCall \<Rightarrow> bool) \<Rightarrow> 'a pReMiuMOptions_scheme \<Rightarrow> 'b pReMiuMData_scheme
     \<Rightarrow> samplerCall list \<times> (exception + int)" where
  "profRegr raises options dataset = perform raises (profRegr_calls options dataset)"

subsection \<open>The sampler\<close>

text \<open>The failure of an \<open>addProposal\<close> call, with the descriptor that was refused.\<close>

datatype samplerError = ProposalRejected proposal

text \<open>
  Modelled from the spec: \<open>addProposal\<close> is a method of \<open>mcmcSampler\<close> in
  \<open>MCMC/sampler.h\<close>, which is not among the sources. It appends the descriptor to the
  registry and fails if the name is not unique or if \<open>firstActiveSweep < 1\<close>.
\<close>

definition addProposal :: "proposal \<Rightarrow> proposal list \<Rightarrow> samplerError + proposal list" where
  "addProposal p registry =
     (if name p \<in> set (map name registry) \<or> firstActiveSweep p < 1
      then Inl (ProposalRejected p)
      else Inr (registry @ [p]))"

text \<open>
  The \<open>addProposal\<close> calls of \<open>profRegr\<close> one after the other, from a given registry; the
  first failure ends them.
\<close>

fun addProposals :: "proposal list \<Rightarrow> proposal list \<Rightarrow> samplerError + proposal list" where
  "addProposals [] registry = Inr registry"
| "addProposals (p # ps) registry =
     (case addProposal p registry of
        Inl e \<Rightarrow> Inl e
      | Inr registry' \<Rightarrow> addProposals ps registry')"

text \<open>
  Modelled from the spec: the part of the state of \<open>mcmcSampler\<close>
  (\<open>MCMC/sampler.h\<close>, not among the sources) that the model binding and the registry
  make up: the flag that declares missing data, the missing-data updater and the
  registered proposals.
\<close>

record samplerState =
  hasMissingData :: bool
  missingDataUpdater :: "modelFn option"
  registered :: "proposal list"

text \<open>
  Modelled from the spec: what a call does to that state. Setting the model binds the
  missing-data flag, \<open>updateMissingDataFn\<close> binds the updater, \<open>addProposal\<close> appends to
  the registry.
\<close>

fun applyCall :: "samplerState \<Rightarrow> samplerCall \<Rightarrow> samplerState" where
  "applyCall st (Model importFn initFn logPostFn flag) = st\<lparr>hasMissingData := flag\<rparr>"
| "applyCall st (UpdateMissingDataFn f) = st\<lparr>missingDataUpdater := Some f\<rparr>"
| "applyCall st (AddProposal p) = st\<lparr>registered := registered st @ [p]\<rparr>"
| "applyCall st _ = st"

text \<open>One invocation of a callable during a sweep.\<close>

datatype invocation = UpdateMissingData modelFn | Update updateFn

text \<open>
  Modelled from the spec: the callables one sweep \<open>s\<close> invokes, in order. If the model
  binding declares missing data, the missing-data updater comes before any proposal;
  then each registered proposal with \<open>firstActiveSweep \<le> s\<close> is invoked \<open>repeatCount\<close>
  times, in registry order.
\<close>

definition sweep :: "samplerState \<Rightarrow> uint \<Rightarrow> invocation list" where
  "sweep st s =
     (if hasMissingData st
      then (case missingDataUpdater st of Some f \<Rightarrow> [UpdateMissingData f] | None \<Rightarrow> [])
      else [])
     @ concat (map (\<lambda>p. if firstActiveSweep p \<le> s
                          then replicate (unat (repeatCount p)) (Update (updateCallable p))
                          else [])
                (registered st))"

subsection \<open>A concrete run\<close>

text \<open>
  Options and data on which the definitions are evaluated: Normal covariates, a Normal
  outcome with fixed effects and extra variation, no variable selection, the truncated
  sampler and a fixed \<open>alpha\<close>.
\<close>

definition scenarioOptions :: pReMiuMOptions where
  "scenarioOptions =
     \<lparr>inFileName = ''input.txt'', outFileStem = ''output'', predictFileName = '''',
      nSweeps = 30, nBurn = 10, nFilter = 5, nProgress = 10, reportBurnIn = False,
      seed = 1234, outcomeType = ''Normal'', covariateType = ''Normal'',
      varSelectType = ''None'', samplerType = ''Truncated'', fixedAlpha = Finite 1,
      includeResponse = True, responseExtraVar = True\<rparr>"

definition scenarioData :: pReMiuMData where
  "scenarioData = \<lparr>nCovariates = 5, nFixedEffects = 2, nCategoriesY = 1\<rparr>"

text \<open>Two ways the calls can go: \<open>run\<close> raises, or nothing does.\<close>

definition runRaises :: "samplerCall \<Rightarrow> bool" where
  "runRaises c = (c = Run)"

definition nothingRaises :: "samplerCall \<Rightarrow> bool" where
  "nothingRaises c = False"

text \<open>A sampler on which nothing has been set yet.\<close>

definition idleSampler :: samplerState where
  "idleSampler = \<lparr>hasMissingData = False, missingDataUpdater = None, registered = []\<rparr>"

section \<open>Facts about the composition\<close>

lemmas proposal_blocks =
  activeCovariateProposals_def activeGammaProposals_def activeThetaProposals_def
  sliceProposals_def alphaProposals_def inactiveCovariateProposals_def
  inactiveGammaProposals_def inactiveThetaProposals_def responseProposals_def
  rhoOmegaProposals_def sigmaSqYProposals_def

lemma unat_firstSweep: "unat (firstSweep options) = 1 + unat (nBurn options) div 10"
proof -
  have "unat (nBurn options) < 2 ^ 32"
    using unsigned_less [of "nBurn options", where 'a = nat] by simp
  then have b: "unat (nBurn options div 10) < 2 ^ 32 - 1" by (simp add: unat_div)
  have "unat (1 + nBurn options div 10) = unat (1 :: uint) + unat (nBurn options div 10)"
    using b by (simp add: unat_add_lem [THEN iffD1])
  then show ?thesis
    by (simp add: firstSweep_def unat_div)
qed

lemma distinct_proposalNames: "distinct proposalNames"
  by (simp add: proposalNames_def)

lemma subseq_distinct: "subseq xs ys \<Longrightarrow> distinct ys \<Longrightarrow> distinct xs"
  using subseqs_distinctD [of xs ys] by (simp add: in_set_subseqs)

lemma names_subseq: "subseq (map name (profRegr_proposals options dataset)) proposalNames"
proof -
  have "subseq (map name (profRegr_proposals options dataset))
     ([''gibbsForVActive''] @ [''updateForPhiActive'', ''gibbsForMuActive'', ''gibbsForTauActive'']
      @ [''gibbsForGammaActive''] @ [''metropolisHastingsForThetaActive'']
      @ [''metropolisHastingsForLabels''] @ [''gibbsForU''] @ [''metropolisHastingsForAlpha'']
      @ [''gibbsForVInActive'']
      @ [''gibbsForPhiInActive'', ''gibbsForMuInActive'', ''gibbsForTauInActive'']
      @ [''gibbsForGammaInActive''] @ [''gibbsForThetaInActive'']
      @ [''metropolisHastingsForBeta'', ''metropolisHastingsForLambda'', ''gibbsForTauEpsilon'']
      @ [''metropolisHastingsForRhoOmega''] @ [''gibbsForSigmaSqY''] @ [''gibbsForZ''])"
    unfolding profRegr_proposals_def map_append
    by (intro list_emb_append_mono) (simp_all add: proposal_blocks addProposalArgs_def)
  then show ?thesis by (simp add: proposalNames_def)
qed

lemma distinct_names: "distinct (map name (profRegr_proposals options dataset))"
  using names_subseq distinct_proposalNames by (rule subseq_distinct)

lemma block_members:
  "p \<in> set (activeCovariateProposals options) \<longleftrightarrow>
     (covariateType options \<in> {''Discrete'', ''Mixed''}
        \<and> p = addProposalArgs ''updateForPhiActive'' (Finite 1) 1 1 UpdateForPhiActive)
     \<or> (covariateType options \<in> {''Normal'', ''Mixed''}
        \<and> p \<in> {addProposalArgs ''gibbsForMuActive'' (Finite 1) 1 1 GibbsForMuActive,
                addProposalArgs ''gibbsForTauActive'' (Finite 1) 1 1 GibbsForTauActive})"
  "p \<in> set (activeGammaProposals options) \<longleftrightarrow>
     varSelectType options \<noteq> ''None'' \<and> varSelectType options \<noteq> ''Continuous''
     \<and> p = addProposalArgs ''gibbsForGammaActive'' (Finite 1) 1 (firstSweep options)
           GibbsForGammaActive"
  "p \<in> set (activeThetaProposals options) \<longleftrightarrow>
     includeResponse options
     \<and> p = addProposalArgs ''metropolisHastingsForThetaActive'' (Finite 1) 1 1
           MetropolisHastingsForThetaActive"
  "p \<in> set (sliceProposals options) \<longleftrightarrow>
     samplerType options \<noteq> ''Truncated''
     \<and> p = addProposalArgs ''gibbsForU'' (Finite 1) 1 1 GibbsForU"
  "p \<in> set (alphaProposals options) \<longleftrightarrow>
     lessThanZero (fixedAlpha options)
     \<and> p = addProposalArgs ''metropolisHastingsForAlpha'' (Finite 1) 1 1
           MetropolisHastingsForAlpha"
  "p \<in> set (inactiveCovariateProposals options) \<longleftrightarrow>
     (covariateType options \<in> {''Discrete'', ''Mixed''}
        \<and> p = addProposalArgs ''gibbsForPhiInActive'' (Finite 1) 1 1 GibbsForPhiInActive)
     \<or> (covariateType options \<in> {''Normal'', ''Mixed''}
        \<and> p \<in> {addProposalArgs ''gibbsForMuInActive'' (Finite 1) 1 1 GibbsForMuInActive,
                addProposalArgs ''gibbsForTauInActive'' (Finite 1) 1 1 GibbsForTauInActive})"
  "p \<in> set (inactiveGammaProposals options) \<longleftrightarrow>
     varSelectType options \<noteq> ''None'' \<and> varSelectType options \<noteq> ''Continuous''
     \<and> p = addProposalArgs ''gibbsForGammaInActive'' (Finite 1) 1 (firstSweep options)
           GibbsForGammaInActive"
  "p \<in> set (inactiveThetaProposals options) \<longleftrightarrow>
     includeResponse options
     \<and> p = addProposalArgs ''gibbsForThetaInActive'' (Finite 1) 1 1 GibbsForThetaInActive"
  "p \<in> set (responseProposals options dataset) \<longleftrightarrow>
     (includeResponse options \<and> 0 < nFixedEffects dataset
        \<and> p = addProposalArgs ''metropolisHastingsForBeta'' (Finite 1) 1 1
              MetropolisHastingsForBeta)
     \<or> (includeResponse options \<and> responseExtraVar options
        \<and> p \<in> {addProposalArgs ''metropolisHastingsForLambda'' (Finite 1) 1 1
                  MetropolisHastingsForLambda,
                addProposalArgs ''gibbsForTauEpsilon'' (Finite 1) 1 1 GibbsForTauEpsilon})"
  "p \<in> set (rhoOmegaProposals options) \<longleftrightarrow>
     varSelectType options \<noteq> ''None''
     \<and> p = addProposalArgs ''metropolisHastingsForRhoOmega'' (Finite 1) 1
           (firstSweep options) MetropolisHastingsForRhoOmega"
  "p \<in> set (sigmaSqYProposals options) \<longleftrightarrow>
     outcomeType options = ''Normal''
     \<and> p = addProposalArgs ''gibbsForSigmaSqY'' (Finite 1) 1 1 GibbsForSigmaSqY"
  by (auto simp: proposal_blocks)

lemma block_names_list:
  "map name (activeCovariateProposals options) =
     (if covariateType options = ''Discrete'' then [''updateForPhiActive'']
      else if covariateType options = ''Normal'' then [''gibbsForMuActive'', ''gibbsForTauActive'']
      else if covariateType options = ''Mixed''
        then [''updateForPhiActive'', ''gibbsForMuActive'', ''gibbsForTauActive'']
      else [])"
  "map name (activeGammaProposals options) =
     (if varSelectType options \<noteq> ''None'' \<and> varSelectType options \<noteq> ''Continuous''
      then [''gibbsForGammaActive''] else [])"
  "map name (activeThetaProposals options) =
     (if includeResponse options then [''metropolisHastingsForThetaActive''] else [])"
  "map name (sliceProposals options) =
     (if samplerType options \<noteq> ''Truncated'' then [''gibbsForU''] else [])"
  "map name (alphaProposals options) =
     (if lessThanZero (fixedAlpha options) then [''metropolisHastingsForAlpha''] else [])"
  "map name (inactiveCovariateProposals options) =
     (if covariateType options = ''Discrete'' then [''gibbsForPhiInActive'']
      else if covariateType options = ''Normal''
        then [''gibbsForMuInActive'', ''gibbsForTauInActive'']
      else if covariateType options = ''Mixed''
        then [''gibbsForPhiInActive'', ''gibbsForMuInActive'', ''gibbsForTauInActive'']
      else [])"
  "map name (inactiveGammaProposals options) =
     (if varSelectType options \<noteq> ''None'' \<and> varSelectType options \<noteq> ''Continuous''
      then [''gibbsForGammaInActive''] else [])"
  "map name (inactiveThetaProposals options) =
     (if includeResponse options then [''gibbsForThetaInActive''] else [])"
  "map name (responseProposals options dataset) =
     (if includeResponse options \<and> 0 < nFixedEffects dataset
      then [''metropolisHastingsForBeta''] else [])
     @ (if includeResponse options \<and> responseExtraVar options
        then [''metropolisHastingsForLambda'', ''gibbsForTauEpsilon''] else [])"
  "map name (rhoOmegaProposals options) =
     (if varSelectType options \<noteq> ''None'' then [''metropolisHastingsForRhoOmega''] else [])"
  "map name (sigmaSqYProposals options) =
     (if outcomeType options = ''Normal'' then [''gibbsForSigmaSqY''] else [])"
  by (simp_all add: proposal_blocks addProposalArgs_def)

lemma block_names:
  "n \<in> name ` set (activeCovariateProposals options) \<longleftrightarrow>
     (n = ''updateForPhiActive'' \<and> covariateType options \<in> {''Discrete'', ''Mixed''})
     \<or> (n \<in> {''gibbsForMuActive'', ''gibbsForTauActive''}
          \<and> covariateType options \<in> {''Normal'', ''Mixed''})"
  "n \<in> name ` set (activeGammaProposals options) \<longleftrightarrow>
     n = ''gibbsForGammaActive'' \<and> varSelectType options \<noteq> ''None''
     \<and> varSelectType options \<noteq> ''Continuous''"
  "n \<in> name ` set (activeThetaProposals options) \<longleftrightarrow>
     n = ''metropolisHastingsForThetaActive'' \<and> includeResponse options"
  "n \<in> name ` set (sliceProposals options) \<longleftrightarrow>
     n = ''gibbsForU'' \<and> samplerType options \<noteq> ''Truncated''"
  "n \<in> name ` set (alphaProposals options) \<longleftrightarrow>
     n = ''metropolisHastingsForAlpha'' \<and> lessThanZero (fixedAlpha options)"
  "n \<in> name ` set (inactiveCovariateProposals options) \<longleftrightarrow>
     (n = ''gibbsForPhiInActive'' \<and> covariateType options \<in> {''Discrete'', ''Mixed''})
     \<or> (n \<in> {''gibbsForMuInActive'', ''gibbsForTauInActive''}
          \<and> covariateType options \<in> {''Normal'', ''Mixed''})"
  "n \<in> name ` set (inactiveGammaProposals options) \<longleftrightarrow>
     n = ''gibbsForGammaInActive'' \<and> varSelectType options \<noteq> ''None''
     \<and> varSelectType options \<noteq> ''Continuous''"
  "n \<in> name ` set (inactiveThetaProposals options) \<longleftrightarrow>
     n = ''gibbsForThetaInActive'' \<and> includeResponse options"
  "n \<in> name ` set (responseProposals options dataset) \<longleftrightarrow>
     (n = ''metropolisHastingsForBeta'' \<and> includeResponse options
        \<and> 0 < nFixedEffects dataset)
     \<or> (n \<in> {''metropolisHastingsForLambda'', ''gibbsForTauEpsilon''}
          \<and> includeResponse options \<and> responseExtraVar options)"
  "n \<in> name ` set (rhoOmegaProposals options) \<longleftrightarrow>
     n = ''metropolisHastingsForRhoOmega'' \<and> varSelectType options \<noteq> ''None''"
  "n \<in> name ` set (sigmaSqYProposals options) \<longleftrightarrow>
     n = ''gibbsForSigmaSqY'' \<and> outcomeType options = ''Normal''"
  unfolding image_set block_names_list by (auto split: if_splits)

lemma registered_iff:
  "p \<in> set (profRegr_proposals options dataset) \<longleftrightarrow>
     p = addProposalArgs ''gibbsForVActive'' (Finite 1) 1 1 GibbsForVActive
   \<or> p \<in> set (activeCovariateProposals options)
   \<or> p \<in> set (activeGammaProposals options)
   \<or> p \<in> set (activeThetaProposals options)
   \<or> p = addProposalArgs ''metropolisHastingsForLabels'' (Finite 1) 1 1
         MetropolisHastingsForLabels
   \<or> p \<in> set (sliceProposals options)
   \<or> p \<in> set (alphaProposals options)
   \<or> p = addProposalArgs ''gibbsForVInActive'' (Finite 1) 1 1 GibbsForVInActive
   \<or> p \<in> set (inactiveCovariateProposals options)
   \<or> p \<in> set (inactiveGammaProposals options)
   \<or> p \<in> set (inactiveThetaProposals options)
   \<or> p \<in> set (responseProposals options dataset)
   \<or> p \<in> set (rhoOmegaProposals options)
   \<or> p \<in> set (sigmaSqYProposals options)
   \<or> p = addProposalArgs ''gibbsForZ'' (Finite 1) 1 1 GibbsForZ"
  unfolding profRegr_proposals_def set_append by auto

lemma registered_name_iff:
  "n \<in> name ` set (profRegr_proposals options dataset) \<longleftrightarrow>
     n = ''gibbsForVActive''
   \<or> (n = ''updateForPhiActive'' \<and> covariateType options \<in> {''Discrete'', ''Mixed''})
   \<or> (n \<in> {''gibbsForMuActive'', ''gibbsForTauActive''}
        \<and> covariateType options \<in> {''Normal'', ''Mixed''})
   \<or> (n = ''gibbsForGammaActive'' \<and> varSelectType options \<noteq> ''None''
        \<and> varSelectType options \<noteq> ''Continuous'')
   \<or> (n = ''metropolisHastingsForThetaActive'' \<and> includeResponse options)
   \<or> n = ''metropolisHastingsForLabels''
   \<or> (n = ''gibbsForU'' \<and> samplerType options \<noteq> ''Truncated'')
   \<or> (n = ''metropolisHastingsForAlpha'' \<and> lessThanZero (fixedAlpha options))
   \<or> n = ''gibbsForVInActive''
   \<or> (n = ''gibbsForPhiInActive'' \<and> covariateType options \<in> {''Discrete'', ''Mixed''})
   \<or> (n \<in> {''gibbsForMuInActive'', ''gibbsForTauInActive''}
        \<and> covariateType options \<in> {''Normal'', ''Mixed''})
   \<or> (n = ''gibbsForGammaInActive'' \<and> varSelectType options \<noteq> ''None''
        \<and> varSelectType options \<noteq> ''Continuous'')
   \<or> (n = ''gibbsForThetaInActive'' \<and> includeResponse options)
   \<or> (n = ''metropolisHastingsForBeta'' \<and> includeResponse options
        \<and> 0 < nFixedEffects dataset)
   \<or> (n \<in> {''metropolisHastingsForLambda'', ''gibbsForTauEpsilon''}
        \<and> includeResponse options \<and> responseExtraVar options)
   \<or> (n = ''metropolisHastingsForRhoOmega'' \<and> varSelectType options \<noteq> ''None'')
   \<or> (n = ''gibbsForSigmaSqY'' \<and> outcomeType options = ''Normal'')
   \<or> n = ''gibbsForZ''"
  unfolding profRegr_proposals_def set_append image_Un Un_iff block_names
  by (simp add: addProposalArgs_def)

lemma registered_sweep:
  "p \<in> set (profRegr_proposals options dataset) \<Longrightarrow>
     firstActiveSweep p = 1 \<or> (varSelectType options \<noteq> ''None'' \<and> firstActiveSweep p = firstSweep options)"
  unfolding registered_iff block_members
  by (elim disjE conjE insertE emptyE) (simp_all add: addProposalArgs_def)

lemma registered_weight_repeat:
  "p \<in> set (profRegr_proposals options dataset) \<Longrightarrow> weight p = Finite 1 \<and> repeatCount p = 1"
  unfolding registered_iff block_members
  by (elim disjE conjE insertE emptyE) (simp_all add: addProposalArgs_def)

lemma one_le_firstSweep: "1 \<le> firstSweep options"
  by (simp add: word_le_nat_alt unat_firstSweep)

lemma addProposals_accepts:
  "distinct (map name (registry @ ps)) \<Longrightarrow> \<forall>p \<in> set ps. 1 \<le> firstActiveSweep p
     \<Longrightarrow> addProposals ps registry = Inr (registry @ ps)"
proof (induction ps arbitrary: registry)
  case Nil
  then show ?case by simp
next
  case (Cons p ps)
  from Cons.prems have "addProposal p registry = Inr (registry @ [p])"
    by (auto simp: addProposal_def not_less)
  moreover from Cons.prems have "addProposals ps (registry @ [p]) = Inr ((registry @ [p]) @ ps)"
    by (intro Cons.IH) auto
  ultimately show ?case by simp
qed

section \<open>Facts about the calls\<close>

lemma perform_count:
  "x \<notin> set cs \<Longrightarrow>
     count_list (fst (perform raises (cs @ [x]))) x = (if \<exists>c \<in> set cs. raises c then 0 else 1)"
  by (induction cs) (auto split: prod.splits)

lemma perform_prefix:
  "\<forall>c \<in> set cs. \<not> raises c \<Longrightarrow> raises x
     \<Longrightarrow> perform raises (cs @ x # rest) = (cs @ [x], Inl (Raised x))"
  by (induction cs) simp_all

lemma closeOutputFiles_last:
  "\<exists>cs. profRegr_calls options dataset = cs @ [CloseOutputFiles] \<and> CloseOutputFiles \<notin> set cs"
  by (auto simp: profRegr_calls_def)

lemma raises_before_last:
  assumes "x \<notin> set cs"
  shows "(\<exists>c \<in> set (cs @ [x]). c \<noteq> x \<and> raises c) \<longleftrightarrow> (\<exists>c \<in> set cs. raises c)"
proof
  assume "\<exists>c \<in> set (cs @ [x]). c \<noteq> x \<and> raises c"
  then show "\<exists>c \<in> set cs. raises c" by auto
next
  assume "\<exists>c \<in> set cs. raises c"
  then obtain c where c: "c \<in> set cs" "raises c" by (rule bexE)
  with assms have "c \<noteq> x" by (metis)
  with c show "\<exists>c \<in> set (cs @ [x]). c \<noteq> x \<and> raises c" by (intro bexI [of _ c]) simp_all
qed

lemma applyCall_AddProposal:
  "hasMissingData (foldl applyCall st (map AddProposal ps)) = hasMissingData st
   \<and> missingDataUpdater (foldl applyCall st (map AddProposal ps)) = missingDataUpdater st"
  by (induction ps arbitrary: st) simp_all

lemma configured_binding:
  "hasMissingData (foldl applyCall st (profRegr_calls options dataset))
   \<and> missingDataUpdater (foldl applyCall st (profRegr_calls options dataset))
       = Some UpdateMissingPReMiuMData"
  by (simp add: profRegr_calls_def applyCall_AddProposal)

lemma perform_snd:
  "snd (perform raises cs)
     = (case find raises cs of None \<Rightarrow> Inr 0 | Some c \<Rightarrow> Inl (Raised c))"
  by (induction cs) (auto split: prod.splits)

lemma perform_fst:
  "fst (perform raises cs)
     = takeWhile (\<lambda>c. \<not> raises c) cs
       @ (case find raises cs of None \<Rightarrow> [] | Some c \<Rightarrow> [c])"
  by (induction cs) (auto split: prod.splits)

lemma find_append_cases:
  "find P (xs @ ys) = (case find P xs of None \<Rightarrow> find P ys | Some x \<Rightarrow> Some x)"
  by (induction xs) simp_all

lemma find_Some_member: "find P xs = Some x \<Longrightarrow> x \<in> set xs \<and> P x"
  by (induction xs) (auto split: if_splits)

lemma calls_before_output:
  "\<exists>pre. profRegr_calls options dataset
            = pre @ [InitialiseOutputFiles (outFileStem options), WriteLogFile, InitialiseChain,
                     Run, AppendToLogFile, CloseOutputFiles]
        \<and> WriteLogFile \<notin> set pre \<and> InitialiseChain \<notin> set pre \<and> Run \<notin> set pre
        \<and> AppendToLogFile \<notin> set pre"
  by (auto simp: profRegr_calls_def)

lemma raised_after_output:
  assumes f: "find raises (profRegr_calls options dataset) = Some c"
    and c: "c \<in> {WriteLogFile, InitialiseChain, Run, AppendToLogFile}"
  shows "InitialiseOutputFiles (outFileStem options)
           \<in> set (takeWhile (\<lambda>c. \<not> raises c) (profRegr_calls options dataset))"
proof -
  obtain pre where pre: "profRegr_calls options dataset
            = pre @ [InitialiseOutputFiles (outFileStem options), WriteLogFile, InitialiseChain,
                     Run, AppendToLogFile, CloseOutputFiles]"
    and out: "WriteLogFile \<notin> set pre" "InitialiseChain \<notin> set pre" "Run \<notin> set pre"
      "AppendToLogFile \<notin> set pre"
    using calls_before_output by blast
  have "find raises pre = None"
  proof (cases "find raises pre")
    case None
    then show ?thesis .
  next
    case (Some x)
    with f pre have "x = c" by (simp add: find_append_cases)
    moreover from Some have "x \<in> set pre" by (simp add: find_Some_member)
    ultimately show ?thesis using c out by auto
  qed
  then have quiet: "\<forall>x \<in> set pre. \<not> raises x" by (simp add: find_None_iff)
  from f pre \<open>find raises pre = None\<close> c
  have "\<not> raises (InitialiseOutputFiles (outFileStem options))"
    by (auto simp: find_append_cases split: if_splits)
  with quiet show ?thesis
    unfolding pre by (simp add: takeWhile_append2)
qed

section \<open>The registry\<close>

text \<open>
  C1. With Normal covariates, the response included with extra variation, no variable
  selection, the truncated sampler, \<open>fixedAlpha = 1.0\<close>, a Normal outcome and at least
  one fixed effect, \<open>profRegr\<close> registers exactly fourteen proposals, in the order
  listed, and neither \<open>metropolisHastingsForAlpha\<close> nor \<open>gibbsForU\<close> is among them.
\<close>

theorem end_to_end_scenario:
  assumes "covariateType options = ''Normal''" and "includeResponse options"
    and "responseExtraVar options" and "varSelectType options = ''None''"
    and "samplerType options = ''Truncated''" and "fixedAlpha options = Finite 1"
    and "outcomeType options = ''Normal''" and "0 < nFixedEffects dataset"
  shows "profRegr_proposals options dataset =
     [addProposalArgs ''gibbsForVActive'' (Finite 1) 1 1 GibbsForVActive,
      addProposalArgs ''gibbsForMuActive'' (Finite 1) 1 1 GibbsForMuActive,
      addProposalArgs ''gibbsForTauActive'' (Finite 1) 1 1 GibbsForTauActive,
      addProposalArgs ''metropolisHastingsForThetaActive'' (Finite 1) 1 1
        MetropolisHastingsForThetaActive,
      addProposalArgs ''metropolisHastingsForLabels'' (Finite 1) 1 1
        MetropolisHastingsForLabels,
      addProposalArgs ''gibbsForVInActive'' (Finite 1) 1 1 GibbsForVInActive,
      addProposalArgs ''gibbsForMuInActive'' (Finite 1) 1 1 GibbsForMuInActive,
      addProposalArgs ''gibbsForTauInActive'' (Finite 1) 1 1 GibbsForTauInActive,
      addProposalArgs ''gibbsForThetaInActive'' (Finite 1) 1 1 GibbsForThetaInActive,
      addProposalArgs ''metropolisHastingsForBeta'' (Finite 1) 1 1 MetropolisHastingsForBeta,
      addProposalArgs ''metropolisHastingsForLambda'' (Finite 1) 1 1
        MetropolisHastingsForLambda,
      addProposalArgs ''gibbsForTauEpsilon'' (Finite 1) 1 1 GibbsForTauEpsilon,
      addProposalArgs ''gibbsForSigmaSqY'' (Finite 1) 1 1 GibbsForSigmaSqY,
      addProposalArgs ''gibbsForZ'' (Finite 1) 1 1 GibbsForZ]
   \<and> map name (profRegr_proposals options dataset) =
     [''gibbsForVActive'', ''gibbsForMuActive'', ''gibbsForTauActive'',
      ''metropolisHastingsForThetaActive'', ''metropolisHastingsForLabels'',
      ''gibbsForVInActive'', ''gibbsForMuInActive'', ''gibbsForTauInActive'',
      ''gibbsForThetaInActive'', ''metropolisHastingsForBeta'',
      ''metropolisHastingsForLambda'', ''gibbsForTauEpsilon'', ''gibbsForSigmaSqY'',
      ''gibbsForZ'']
   \<and> ''metropolisHastingsForAlpha'' \<notin> name ` set ((profRegr_proposals options dataset))
   \<and> ''gibbsForU'' \<notin> name ` set ((profRegr_proposals options dataset))"
  using assms by (simp add: profRegr_proposals_def proposal_blocks addProposalArgs_def)

theorem end_to_end_scenario_witness:
  "covariateType scenarioOptions = ''Normal'' \<and> includeResponse scenarioOptions
   \<and> responseExtraVar scenarioOptions \<and> varSelectType scenarioOptions = ''None''
   \<and> samplerType scenarioOptions = ''Truncated'' \<and> fixedAlpha scenarioOptions = Finite 1
   \<and> outcomeType scenarioOptions = ''Normal'' \<and> 0 < nFixedEffects scenarioData
   \<and> map name (profRegr_proposals scenarioOptions scenarioData) =
     [''gibbsForVActive'', ''gibbsForMuActive'', ''gibbsForTauActive'',
      ''metropolisHastingsForThetaActive'', ''metropolisHastingsForLabels'',
      ''gibbsForVInActive'', ''gibbsForMuInActive'', ''gibbsForTauInActive'',
      ''gibbsForThetaInActive'', ''metropolisHastingsForBeta'',
      ''metropolisHastingsForLambda'', ''gibbsForTauEpsilon'', ''gibbsForSigmaSqY'',
      ''gibbsForZ'']"
proof -
  have h: "covariateType scenarioOptions = ''Normal''" "includeResponse scenarioOptions"
    "responseExtraVar scenarioOptions" "varSelectType scenarioOptions = ''None''"
    "samplerType scenarioOptions = ''Truncated''" "fixedAlpha scenarioOptions = Finite 1"
    "outcomeType scenarioOptions = ''Normal''" "0 < nFixedEffects scenarioData"
    by (simp_all add: scenarioOptions_def scenarioData_def)
  from end_to_end_scenario [OF h] h show ?thesis by (simp add: addProposalArgs_def)
qed




section \<open>The output files\<close>

text \<open>
  C3. \<open>profRegr\<close> calls \<open>closeOutputFiles\<close> once, as its last call on the sampler, when
  every earlier call returns, and not at all when one of them raises; it never calls it
  twice. The first call that raises ends \<open>profRegr\<close>: its exception reaches the caller and
  the calls made are those up to it; when nothing raises, \<open>profRegr\<close> returns 0. In
  particular, when \<open>writeLogFile\<close>, \<open>initialiseChain\<close>, \<open>run\<close> or \<open>appendToLogFile\<close> is the
  call that raises, \<open>initialiseOutputFiles\<close> has been called and \<open>closeOutputFiles\<close> has not.
\<close>

theorem closeOutputFiles_count:
  "count_list (fst (profRegr raises options dataset)) CloseOutputFiles =
     (if \<exists>c \<in> set (profRegr_calls options dataset). c \<noteq> CloseOutputFiles \<and> raises c
      then 0 else 1)
   \<and> snd (profRegr raises options dataset)
       = (case find raises (profRegr_calls options dataset) of
            None \<Rightarrow> Inr 0 | Some c \<Rightarrow> Inl (Raised c))
   \<and> fst (profRegr raises options dataset)
       = takeWhile (\<lambda>c. \<not> raises c) (profRegr_calls options dataset)
         @ (case find raises (profRegr_calls options dataset) of
              None \<Rightarrow> [] | Some c \<Rightarrow> [c])
   \<and> (\<forall>c \<in> {WriteLogFile, InitialiseChain, Run, AppendToLogFile}.
         find raises (profRegr_calls options dataset) = Some c \<longrightarrow>
           InitialiseOutputFiles (outFileStem options)
             \<in> set (fst (profRegr raises options dataset))
           \<and> snd (profRegr raises options dataset) = Inl (Raised c)
           \<and> CloseOutputFiles \<notin> set (fst (profRegr raises options dataset)))"
proof -
  obtain cs where cs: "profRegr_calls options dataset = cs @ [CloseOutputFiles]"
    "CloseOutputFiles \<notin> set cs"
    using closeOutputFiles_last by blast
  have count: "count_list (fst (profRegr raises options dataset)) CloseOutputFiles =
     (if \<exists>c \<in> set (profRegr_calls options dataset). c \<noteq> CloseOutputFiles \<and> raises c
      then 0 else 1)"
    unfolding profRegr_def cs(1) raises_before_last [OF cs(2)]
    by (rule perform_count [OF cs(2)])
  have result: "snd (profRegr raises options dataset)
       = (case find raises (profRegr_calls options dataset) of
            None \<Rightarrow> Inr 0 | Some c \<Rightarrow> Inl (Raised c))"
    by (simp add: profRegr_def perform_snd)
  have made: "fst (profRegr raises options dataset)
       = takeWhile (\<lambda>c. \<not> raises c) (profRegr_calls options dataset)
         @ (case find raises (profRegr_calls options dataset) of
              None \<Rightarrow> [] | Some c \<Rightarrow> [c])"
    by (simp add: profRegr_def perform_fst)
  have after: "InitialiseOutputFiles (outFileStem options)
             \<in> set (fst (profRegr raises options dataset))
           \<and> snd (profRegr raises options dataset) = Inl (Raised c)
           \<and> CloseOutputFiles \<notin> set (fst (profRegr raises options dataset))"
    if c: "c \<in> {WriteLogFile, InitialiseChain, Run, AppendToLogFile}"
      and f: "find raises (profRegr_calls options dataset) = Some c" for c
  proof -
    from raised_after_output [OF f c]
    have "InitialiseOutputFiles (outFileStem options)
            \<in> set (fst (profRegr raises options dataset))"
      by (simp add: made)
    moreover from f have "snd (profRegr raises options dataset) = Inl (Raised c)"
      by (simp add: result)
    moreover from f have "c \<in> set (profRegr_calls options dataset) \<and> raises c"
      by (rule find_Some_member)
    with c have "\<exists>c \<in> set (profRegr_calls options dataset). c \<noteq> CloseOutputFiles \<and> raises c"
      by auto
    with count have "count_list (fst (profRegr raises options dataset)) CloseOutputFiles = 0"
      by simp
    then have "CloseOutputFiles \<notin> set (fst (profRegr raises options dataset))"
      by (simp add: count_list_0_iff)
    ultimately show ?thesis by simp
  qed
  from count result made after show ?thesis by blast
qed

theorem closeOutputFiles_count_witness:
  "find nothingRaises (profRegr_calls scenarioOptions scenarioData) = None
   \<and> snd (profRegr nothingRaises scenarioOptions scenarioData) = Inr 0
   \<and> count_list (fst (profRegr nothingRaises scenarioOptions scenarioData)) CloseOutputFiles = 1
   \<and> find runRaises (profRegr_calls scenarioOptions scenarioData) = Some Run
   \<and> InitialiseOutputFiles (outFileStem scenarioOptions)
       \<in> set (fst (profRegr runRaises scenarioOptions scenarioData))
   \<and> snd (profRegr runRaises scenarioOptions scenarioData) = Inl (Raised Run)
   \<and> CloseOutputFiles \<notin> set (fst (profRegr runRaises scenarioOptions scenarioData))"
proof -
  have quiet: "find nothingRaises (profRegr_calls scenarioOptions scenarioData) = None"
    by (simp add: find_None_iff nothingRaises_def)
  have run: "find runRaises (profRegr_calls scenarioOptions scenarioData) = Some Run"
    by (simp add: profRegr_calls_def find_append_cases find_None_iff [THEN iffD2]
        runRaises_def image_iff split: option.splits)
  note returns = closeOutputFiles_count [of nothingRaises scenarioOptions scenarioData]
  from returns [THEN conjunct1]
  have "count_list (fst (profRegr nothingRaises scenarioOptions scenarioData)) CloseOutputFiles = 1"
    by (simp add: nothingRaises_def)
  moreover from returns [THEN conjunct2, THEN conjunct1] quiet
  have "snd (profRegr nothingRaises scenarioOptions scenarioData) = Inr 0"
    by simp
  moreover from closeOutputFiles_count [of runRaises scenarioOptions scenarioData] run
  have "InitialiseOutputFiles (outFileStem scenarioOptions)
       \<in> set (fst (profRegr runRaises scenarioOptions scenarioData))
   \<and> snd (profRegr runRaises scenarioOptions scenarioData) = Inl (Raised Run)
   \<and> CloseOutputFiles \<notin> set (fst (profRegr runRaises scenarioOptions scenarioData))"
    by blast
  ultimately show ?thesis using quiet run by blast
qed

text \<open>
  When \<open>run\<close> raises, the output files have been initialised, the exception reaches the
  caller and \<open>closeOutputFiles\<close> has not been called.
\<close>

theorem closeOutputFiles_counterexample:
  "InitialiseOutputFiles ''output'' \<in> set (fst (profRegr runRaises scenarioOptions scenarioData))
   \<and> snd (profRegr runRaises scenarioOptions scenarioData) = Inl (Raised Run)
   \<and> count_list (fst (profRegr runRaises scenarioOptions scenarioData)) CloseOutputFiles = 0"
proof -
  let ?pre = "butlast (butlast (butlast (profRegr_calls scenarioOptions scenarioData)))"
  have split: "profRegr_calls scenarioOptions scenarioData
                 = ?pre @ Run # [AppendToLogFile, CloseOutputFiles]"
    by (simp add: profRegr_calls_def butlast_append)
  have quiet: "\<forall>c \<in> set ?pre. \<not> runRaises c"
    by (auto simp: profRegr_calls_def butlast_append runRaises_def)
  have "profRegr runRaises scenarioOptions scenarioData = (?pre @ [Run], Inl (Raised Run))"
    unfolding profRegr_def
    by (subst split, rule perform_prefix [OF quiet]) (simp add: runRaises_def)
  moreover have "InitialiseOutputFiles ''output'' \<in> set ?pre"
    by (simp add: profRegr_calls_def butlast_append scenarioOptions_def)
  moreover have "CloseOutputFiles \<notin> set ?pre"
    by (auto simp: profRegr_calls_def butlast_append)
  ultimately show ?thesis by simp
qed

section \<open>Conditional proposals\<close>

text \<open>
  C4. When \<open>varSelectType\<close> is not \<open>None\<close>, each of the deferred proposals
  \<open>gibbsForGammaActive\<close>, \<open>gibbsForGammaInActive\<close> and \<open>metropolisHastingsForRhoOmega\<close>
  that is registered has \<open>firstActiveSweep = 1 + floor(nBurn/10)\<close>, which is 6 for
  \<open>nBurn = 50\<close>; the two Gibbs updates for gamma are registered exactly when
  \<open>varSelectType\<close> is not \<open>Continuous\<close> either, the update of rho and omega always.
\<close>

theorem deferred_variable_selection:
  assumes "varSelectType options \<noteq> ''None''"
  shows "(\<forall>p \<in> set (profRegr_proposals options dataset).
            name p \<in> {''gibbsForGammaActive'', ''gibbsForGammaInActive'',
                       ''metropolisHastingsForRhoOmega''}
            \<longrightarrow> firstActiveSweep p = firstSweep options
                \<and> unat (firstActiveSweep p) = 1 + unat (nBurn options) div 10
                \<and> (nBurn options = 50 \<longrightarrow> firstActiveSweep p = 6))
     \<and> (''gibbsForGammaActive'' \<in> name ` set (profRegr_proposals options dataset)
          \<longleftrightarrow> varSelectType options \<noteq> ''Continuous'')
     \<and> (''gibbsForGammaInActive'' \<in> name ` set (profRegr_proposals options dataset)
          \<longleftrightarrow> varSelectType options \<noteq> ''Continuous'')
     \<and> ''metropolisHastingsForRhoOmega'' \<in> name ` set (profRegr_proposals options dataset)"
proof -
  have sweep: "firstActiveSweep p = firstSweep options"
    if "p \<in> set (profRegr_proposals options dataset)"
      and "name p \<in> {''gibbsForGammaActive'', ''gibbsForGammaInActive'',
                       ''metropolisHastingsForRhoOmega''}" for p
    using that unfolding registered_iff block_members
    by (elim disjE conjE insertE emptyE) (simp_all add: addProposalArgs_def)
  have six: "firstSweep options = 6" if "nBurn options = 50"
    using that by (simp add: firstSweep_def)
  show ?thesis
    using assms sweep six by (simp add: registered_name_iff unat_firstSweep)
qed

theorem deferred_variable_selection_witness:
  "varSelectType (scenarioOptions\<lparr>varSelectType := ''BinaryCluster'', nBurn := 50\<rparr>)
     = ''BinaryCluster''
   \<and> nBurn (scenarioOptions\<lparr>varSelectType := ''BinaryCluster'', nBurn := 50\<rparr>) = 50
   \<and> name (profRegr_proposals
              (scenarioOptions\<lparr>varSelectType := ''BinaryCluster'', nBurn := 50\<rparr>) scenarioData ! 3)
       = ''gibbsForGammaActive''
   \<and> firstActiveSweep (profRegr_proposals
              (scenarioOptions\<lparr>varSelectType := ''BinaryCluster'', nBurn := 50\<rparr>) scenarioData ! 3)
       = 6
   \<and> ''gibbsForGammaInActive''
       \<in> name ` set (profRegr_proposals
                (scenarioOptions\<lparr>varSelectType := ''BinaryCluster'', nBurn := 50\<rparr>) scenarioData)
   \<and> ''metropolisHastingsForRhoOmega''
       \<in> name ` set (profRegr_proposals
                (scenarioOptions\<lparr>varSelectType := ''BinaryCluster'', nBurn := 50\<rparr>) scenarioData)"
proof -
  let ?c = "scenarioOptions\<lparr>varSelectType := ''BinaryCluster'', nBurn := 50\<rparr>"
  have v: "varSelectType ?c = ''BinaryCluster''" by simp
  then have h: "varSelectType ?c \<noteq> ''None''" "varSelectType ?c \<noteq> ''Continuous''" by simp_all
  have b: "nBurn ?c = 50" by simp
  have at: "name (profRegr_proposals ?c scenarioData ! 3) = ''gibbsForGammaActive''"
    "3 < length (profRegr_proposals ?c scenarioData)"
    by (simp_all add: profRegr_proposals_def proposal_blocks addProposalArgs_def
        scenarioOptions_def)
  from at(2) have m: "profRegr_proposals ?c scenarioData ! 3
                        \<in> set (profRegr_proposals ?c scenarioData)"
    by (rule nth_mem)
  from deferred_variable_selection [OF h(1), of scenarioData] m at(1) b
  have "firstActiveSweep (profRegr_proposals ?c scenarioData ! 3) = 6" by blast
  with deferred_variable_selection [OF h(1), of scenarioData] h(2) v b at(1)
  show ?thesis by blast
qed

text \<open>
  C5. \<open>metropolisHastingsForAlpha\<close> is registered exactly when \<open>fixedAlpha < 0\<close>, so it
  is present for \<open>fixedAlpha = -1\<close> and absent for \<open>fixedAlpha = 2.5\<close>; without fixed
  effects \<open>metropolisHastingsForBeta\<close> is absent, whatever \<open>includeResponse\<close> is.
\<close>

theorem alpha_and_beta_inclusion:
  "(''metropolisHastingsForAlpha'' \<in> name ` set (profRegr_proposals options dataset)
      \<longleftrightarrow> lessThanZero (fixedAlpha options))
   \<and> (fixedAlpha options = Finite (-1) \<longrightarrow>
        ''metropolisHastingsForAlpha'' \<in> name ` set (profRegr_proposals options dataset))
   \<and> (fixedAlpha options = Finite 2.5 \<longrightarrow>
        ''metropolisHastingsForAlpha'' \<notin> name ` set (profRegr_proposals options dataset))
   \<and> (nFixedEffects dataset = 0 \<longrightarrow>
        ''metropolisHastingsForBeta'' \<notin> name ` set (profRegr_proposals options dataset))"
  by (simp add: registered_name_iff)

theorem alpha_and_beta_inclusion_witness:
  "lessThanZero (fixedAlpha (scenarioOptions\<lparr>fixedAlpha := Finite (-1)\<rparr>))
   \<and> ''metropolisHastingsForAlpha''
       \<in> name ` set (profRegr_proposals (scenarioOptions\<lparr>fixedAlpha := Finite (-1)\<rparr>)
                        (scenarioData\<lparr>nFixedEffects := 0\<rparr>))
   \<and> fixedAlpha (scenarioOptions\<lparr>fixedAlpha := Finite 2.5\<rparr>) = Finite 2.5
   \<and> ''metropolisHastingsForAlpha''
       \<notin> name ` set (profRegr_proposals (scenarioOptions\<lparr>fixedAlpha := Finite 2.5\<rparr>)
                        scenarioData)
   \<and> nFixedEffects (scenarioData\<lparr>nFixedEffects := 0\<rparr>) = 0
   \<and> includeResponse (scenarioOptions\<lparr>fixedAlpha := Finite (-1)\<rparr>)
   \<and> ''metropolisHastingsForBeta''
       \<notin> name ` set (profRegr_proposals (scenarioOptions\<lparr>fixedAlpha := Finite (-1)\<rparr>)
                        (scenarioData\<lparr>nFixedEffects := 0\<rparr>))"
  using alpha_and_beta_inclusion
    [of "scenarioOptions\<lparr>fixedAlpha := Finite (-1)\<rparr>" "scenarioData\<lparr>nFixedEffects := 0\<rparr>"]
    alpha_and_beta_inclusion [of "scenarioOptions\<lparr>fixedAlpha := Finite 2.5\<rparr>" scenarioData]
  by (simp add: scenarioOptions_def scenarioData_def)

text \<open>
  C6. When \<open>covariateType\<close> is none of \<open>Discrete\<close>, \<open>Normal\<close> and \<open>Mixed\<close>, none of the
  six covariate updates is registered, and the composition has no failure branch for
  the value: the registry is the one the remaining rules give.
\<close>

theorem unrecognised_covariateType:
  assumes "covariateType options \<notin> {''Discrete'', ''Normal'', ''Mixed''}"
  shows "(\<forall>n \<in> {''updateForPhiActive'', ''gibbsForMuActive'', ''gibbsForTauActive'',
                 ''gibbsForPhiInActive'', ''gibbsForMuInActive'', ''gibbsForTauInActive''}.
            n \<notin> name ` set (profRegr_proposals options dataset))
     \<and> profRegr_proposals options dataset =
         [addProposalArgs ''gibbsForVActive'' (Finite 1) 1 1 GibbsForVActive]
         @ activeGammaProposals options
         @ activeThetaProposals options
         @ [addProposalArgs ''metropolisHastingsForLabels'' (Finite 1) 1 1
              MetropolisHastingsForLabels]
         @ sliceProposals options
         @ alphaProposals options
         @ [addProposalArgs ''gibbsForVInActive'' (Finite 1) 1 1 GibbsForVInActive]
         @ inactiveGammaProposals options
         @ inactiveThetaProposals options
         @ responseProposals options dataset
         @ rhoOmegaProposals options
         @ sigmaSqYProposals options
         @ [addProposalArgs ''gibbsForZ'' (Finite 1) 1 1 GibbsForZ]"
proof -
  have "activeCovariateProposals options = []" "inactiveCovariateProposals options = []"
    using assms by (simp_all add: activeCovariateProposals_def inactiveCovariateProposals_def)
  then have "profRegr_proposals options dataset =
         [addProposalArgs ''gibbsForVActive'' (Finite 1) 1 1 GibbsForVActive]
         @ activeGammaProposals options
         @ activeThetaProposals options
         @ [addProposalArgs ''metropolisHastingsForLabels'' (Finite 1) 1 1
              MetropolisHastingsForLabels]
         @ sliceProposals options
         @ alphaProposals options
         @ [addProposalArgs ''gibbsForVInActive'' (Finite 1) 1 1 GibbsForVInActive]
         @ inactiveGammaProposals options
         @ inactiveThetaProposals options
         @ responseProposals options dataset
         @ rhoOmegaProposals options
         @ sigmaSqYProposals options
         @ [addProposalArgs ''gibbsForZ'' (Finite 1) 1 1 GibbsForZ]"
    by (simp add: profRegr_proposals_def)
  moreover have "\<forall>n \<in> {''updateForPhiActive'', ''gibbsForMuActive'', ''gibbsForTauActive'',
                 ''gibbsForPhiInActive'', ''gibbsForMuInActive'', ''gibbsForTauInActive''}.
            n \<notin> name ` set (profRegr_proposals options dataset)"
    using assms by (simp add: registered_name_iff)
  ultimately show ?thesis by blast
qed

theorem unrecognised_covariateType_witness:
  "covariateType (scenarioOptions\<lparr>covariateType := ''Unrecognized''\<rparr>)
     \<notin> {''Discrete'', ''Normal'', ''Mixed''}
   \<and> map name (profRegr_proposals (scenarioOptions\<lparr>covariateType := ''Unrecognized''\<rparr>)
                 scenarioData) =
       [''gibbsForVActive'', ''metropolisHastingsForThetaActive'',
        ''metropolisHastingsForLabels'', ''gibbsForVInActive'', ''gibbsForThetaInActive'',
        ''metropolisHastingsForBeta'', ''metropolisHastingsForLambda'', ''gibbsForTauEpsilon'',
        ''gibbsForSigmaSqY'', ''gibbsForZ'']"
proof -
  let ?c = "scenarioOptions\<lparr>covariateType := ''Unrecognized''\<rparr>"
  have h: "covariateType ?c \<notin> {''Discrete'', ''Normal'', ''Mixed''}" by simp
  from unrecognised_covariateType [OF h, of scenarioData, THEN conjunct2] h show ?thesis
    by (simp add: proposal_blocks addProposalArgs_def scenarioOptions_def scenarioData_def)
qed

text \<open>
  C7. Whatever the options and the data set, the list of proposals \<open>profRegr\<close> registers
  is not empty, it starts with the update \<open>gibbsForVActive\<close> of the active stick-breaking
  weights and it ends with the allocation update \<open>gibbsForZ\<close>.
\<close>

theorem registry_first_and_last:
  "profRegr_proposals options dataset \<noteq> []
   \<and> hd (profRegr_proposals options dataset)
       = addProposalArgs ''gibbsForVActive'' (Finite 1) 1 1 GibbsForVActive
   \<and> last (profRegr_proposals options dataset)
       = addProposalArgs ''gibbsForZ'' (Finite 1) 1 1 GibbsForZ"
  by (simp add: profRegr_proposals_def)

text \<open>
  C9. The \<open>addProposal\<close> calls of \<open>profRegr\<close> never meet the failure condition of
  \<open>addProposal\<close>: the names are pairwise distinct and every descriptor has
  \<open>firstActiveSweep \<ge> 1\<close>, weight 1.0 and repeat count 1, so every call succeeds and the
  registry is the list of the calls.
\<close>

theorem addProposal_never_fails:
  "addProposals (profRegr_proposals options dataset) [] = Inr (profRegr_proposals options dataset)
   \<and> distinct (map name (profRegr_proposals options dataset))
   \<and> (\<forall>p \<in> set (profRegr_proposals options dataset).
         1 \<le> firstActiveSweep p \<and> weight p = Finite 1 \<and> repeatCount p = 1)"
proof -
  have "1 \<le> firstActiveSweep p" if "p \<in> set (profRegr_proposals options dataset)" for p
    using registered_sweep [OF that] one_le_firstSweep [of options] by auto
  then have sweeps: "\<forall>p \<in> set (profRegr_proposals options dataset). 1 \<le> firstActiveSweep p"
    by blast
  then have "addProposals (profRegr_proposals options dataset) []
               = Inr ([] @ profRegr_proposals options dataset)"
    by (intro addProposals_accepts) (simp_all add: distinct_names)
  with sweeps show ?thesis
    by (simp add: distinct_names registered_weight_repeat)
qed

theorem addProposal_never_fails_witness:
  "addProposals (profRegr_proposals
              (scenarioOptions\<lparr>varSelectType := ''BinaryCluster'', nBurn := 50\<rparr>) scenarioData) []
       = Inr (profRegr_proposals
              (scenarioOptions\<lparr>varSelectType := ''BinaryCluster'', nBurn := 50\<rparr>) scenarioData)
   \<and> name (profRegr_proposals
              (scenarioOptions\<lparr>varSelectType := ''BinaryCluster'', nBurn := 50\<rparr>) scenarioData ! 3)
       = ''gibbsForGammaActive''
   \<and> 1 \<le> firstActiveSweep (profRegr_proposals
              (scenarioOptions\<lparr>varSelectType := ''BinaryCluster'', nBurn := 50\<rparr>) scenarioData ! 3)
   \<and> weight (profRegr_proposals
              (scenarioOptions\<lparr>varSelectType := ''BinaryCluster'', nBurn := 50\<rparr>) scenarioData ! 3)
       = Finite 1
   \<and> repeatCount (profRegr_proposals
              (scenarioOptions\<lparr>varSelectType := ''BinaryCluster'', nBurn := 50\<rparr>) scenarioData ! 3)
       = 1"
proof -
  let ?c = "scenarioOptions\<lparr>varSelectType := ''BinaryCluster'', nBurn := 50\<rparr>"
  have at: "name (profRegr_proposals ?c scenarioData ! 3) = ''gibbsForGammaActive''"
    "3 < length (profRegr_proposals ?c scenarioData)"
    by (simp_all add: profRegr_proposals_def proposal_blocks addProposalArgs_def
        scenarioOptions_def)
  from at(2) have "profRegr_proposals ?c scenarioData ! 3
                     \<in> set (profRegr_proposals ?c scenarioData)"
    by (rule nth_mem)
  with addProposal_never_fails [of ?c scenarioData] at(1) show ?thesis by blast
qed

section \<open>The model binding\<close>

text \<open>
  C10. Whatever the options and the imported data, \<open>profRegr\<close> sets the model with the
  missing-data flag \<open>true\<close> and installs \<open>updateMissingPReMiuMData\<close> as the missing-data
  updater, and does so nowhere else with other values; the sampler so configured
  starts every sweep with the missing-data updater.
\<close>

theorem missing_data_always_declared:
  "Model ImportPReMiuMData InitialisePReMiuM PReMiuMLogPost True
     \<in> set (profRegr_calls options dataset)
   \<and> (\<forall>importFn initFn logPostFn flag.
         Model importFn initFn logPostFn flag \<in> set (profRegr_calls options dataset) \<longrightarrow> flag)
   \<and> UpdateMissingDataFn UpdateMissingPReMiuMData \<in> set (profRegr_calls options dataset)
   \<and> (\<forall>f. UpdateMissingDataFn f \<in> set (profRegr_calls options dataset)
         \<longrightarrow> f = UpdateMissingPReMiuMData)
   \<and> hasMissingData (foldl applyCall st (profRegr_calls options dataset))
   \<and> (\<forall>s. take 1 (sweep (foldl applyCall st (profRegr_calls options dataset)) s)
         = [UpdateMissingData UpdateMissingPReMiuMData])"
proof -
  have calls: "Model ImportPReMiuMData InitialisePReMiuM PReMiuMLogPost True
       \<in> set (profRegr_calls options dataset)"
    "\<forall>importFn initFn logPostFn flag.
         Model importFn initFn logPostFn flag \<in> set (profRegr_calls options dataset) \<longrightarrow> flag"
    "UpdateMissingDataFn UpdateMissingPReMiuMData \<in> set (profRegr_calls options dataset)"
    "\<forall>f. UpdateMissingDataFn f \<in> set (profRegr_calls options dataset)
         \<longrightarrow> f = UpdateMissingPReMiuMData"
    by (auto simp: profRegr_calls_def)
  have "take 1 (sweep (foldl applyCall st (profRegr_calls options dataset)) s)
         = [UpdateMissingData UpdateMissingPReMiuMData]" for s
    using configured_binding [of st options dataset] by (simp add: sweep_def)
  with calls configured_binding [of st options dataset] show ?thesis by blast
qed

theorem missing_data_always_declared_witness:
  "Model ImportPReMiuMData InitialisePReMiuM PReMiuMLogPost True
     \<in> set (profRegr_calls scenarioOptions scenarioData)
   \<and> UpdateMissingDataFn UpdateMissingPReMiuMData
     \<in> set (profRegr_calls scenarioOptions scenarioData)
   \<and> hasMissingData (foldl applyCall idleSampler (profRegr_calls scenarioOptions scenarioData))
   \<and> take 1 (sweep (foldl applyCall idleSampler (profRegr_calls scenarioOptions scenarioData)) 1)
       = [UpdateMissingData UpdateMissingPReMiuMData]"
  using missing_data_always_declared [of scenarioOptions scenarioData idleSampler]
  by blast

end
